theory Spec2Isabelle
  imports Complex_Main "HOL-Library.Sublist"
begin

section \<open>JavaScript strings and their built-in operations\<close>

text \<open>
  A JavaScript string is modelled by the list of its code units. A \<^typ>\<open>char\<close> has eight
  bits, so the model covers the texts whose code units are below 256; \<open>length\<close> is the
  \<^verbatim>\<open>.length\<close> of the source. Indices are JavaScript numbers holding integers, modelled
  by \<^typ>\<open>int\<close>.
\<close>

definition len :: "string \<Rightarrow> int" where
  "len s = int (length s)"

text \<open>
  \<^verbatim>\<open>String.prototype.trim\<close> removes white space and line terminators from both ends. Below
  256 these are TAB, LF, VT, FF, CR, SPACE and NBSP.
\<close>

definition is_js_whitespace :: "char \<Rightarrow> bool" where
  "is_js_whitespace c = (of_char c \<in> {9, 10, 11, 12, 13, 32, 160 :: nat})"

definition js_trim :: "string \<Rightarrow> string" where
  "js_trim s = rev (dropWhile is_js_whitespace (rev (dropWhile is_js_whitespace s)))"

text \<open>
  \<^verbatim>\<open>s.slice(a, b)\<close>: a negative index counts from the end, both are clamped to the
  string, and the result is empty unless the start lies before the end.
\<close>

definition js_slice_index :: "string \<Rightarrow> int \<Rightarrow> int" where
  "js_slice_index s i = (if i < 0 then max (len s + i) 0 else min i (len s))"

definition js_slice :: "string \<Rightarrow> int \<Rightarrow> int \<Rightarrow> string" where
  "js_slice s a b =
     (let from = js_slice_index s a; to = js_slice_index s b
      in if from < to then take (nat (to - from)) (drop (nat from) s) else [])"

text \<open>
  \<^verbatim>\<open>s.substring(a, b)\<close>: both indices are clamped to \<open>[0, length]\<close> and swapped when
  the first is the larger.
\<close>

definition js_substring :: "string \<Rightarrow> int \<Rightarrow> int \<Rightarrow> string" where
  "js_substring s a b =
     (let a' = min (max a 0) (len s); b' = min (max b 0) (len s);
          from = min a' b'; to = max a' b'
      in take (nat (to - from)) (drop (nat from) s))"

text \<open>
  \<^verbatim>\<open>s.lastIndexOf(c)\<close> for a one-character search string: the index of the last
  occurrence, or \<open>-1\<close>.
\<close>

fun lastIndexOf :: "string \<Rightarrow> char \<Rightarrow> int" where
  "lastIndexOf [] c = -1"
| "lastIndexOf (x # xs) c =
     (let r = lastIndexOf xs c
      in if 0 \<le> r then r + 1 else if x = c then 0 else -1)"

text \<open>The decimal digits of a non-negative integer, as a template literal prints it.\<close>

fun string_of_nat :: "nat \<Rightarrow> string" where
  "string_of_nat n =
     (if n < 10 then [char_of (48 + n)]
      else string_of_nat (n div 10) @ [char_of (48 + n mod 10)])"

section \<open>The chunker: \<^verbatim>\<open>DocumentProcessor.chunkText\<close>\<close>

record DocumentProcessor =
  chunkSize :: int
  chunkOverlap :: int

text \<open>The constructor sets \<^verbatim>\<open>chunkSize = 512\<close> and \<^verbatim>\<open>chunkOverlap = 100\<close>.\<close>

definition new_DocumentProcessor :: DocumentProcessor where
  "new_DocumentProcessor = \<lparr>chunkSize = 512, chunkOverlap = 100\<rparr>"

record chunk_metadata =
  source :: string
  chunkId :: string

record doc_chunk =
  pageContent :: string
  metadata :: chunk_metadata

text \<open>The variables of the \<^verbatim>\<open>while\<close> loop.\<close>

record chunk_state =
  startIndex :: int
  chunkIndex :: nat
  chunks :: "doc_chunk list"

text \<open>
  \<^verbatim>\<open>endIndex = Math.min(startIndex + this.chunkSize, text.length)\<close> and the window
  \<^verbatim>\<open>text.slice(startIndex, endIndex)\<close>.
\<close>

definition endIndex :: "DocumentProcessor \<Rightarrow> string \<Rightarrow> int \<Rightarrow> int" where
  "endIndex dp text start = min (start + chunkSize dp) (len text)"

definition chunkWindow :: "DocumentProcessor \<Rightarrow> string \<Rightarrow> int \<Rightarrow> string" where
  "chunkWindow dp text start = js_slice text start (endIndex dp text start)"

text \<open>
  \<^verbatim>\<open>chunkTextSlice\<close> after the word-boundary cut: when the window ends before the text
  does and its last space is at an index above 0, the window is cut at that space.
\<close>

definition chunkTextSlice :: "DocumentProcessor \<Rightarrow> string \<Rightarrow> int \<Rightarrow> string" where
  "chunkTextSlice dp text start =
     (let window = chunkWindow dp text start
      in if endIndex dp text start < len text
         then (let lastSpace = lastIndexOf window CHR '' ''
               in if 0 < lastSpace then js_substring window 0 lastSpace else window)
         else window)"

definition chunkWithContext :: "string \<Rightarrow> string \<Rightarrow> string" where
  \<open>chunkWithContext filename slice =
     ''Source Document: "'' @ filename @ ''"\<newline>\<newline>Content: '' @ js_trim slice\<close>

definition make_chunk :: "string \<Rightarrow> nat \<Rightarrow> string \<Rightarrow> doc_chunk" where
  "make_chunk filename i slice =
     \<lparr>pageContent = chunkWithContext filename slice,
      metadata = \<lparr>source = filename, chunkId = filename @ ''_chunk_'' @ string_of_nat i\<rparr>\<rparr>"

text \<open>
  The start of the next window: \<^verbatim>\<open>actualEndIndex - chunkOverlap\<close>, replaced by
  \<^verbatim>\<open>actualEndIndex\<close> when that would not lie after the current start.
\<close>

definition nextStartIndex :: "DocumentProcessor \<Rightarrow> string \<Rightarrow> int \<Rightarrow> int" where
  "nextStartIndex dp text start =
     (let slice = chunkTextSlice dp text start;
          actualEndIndex = start + len slice;
          start' = actualEndIndex - chunkOverlap dp
      in if start' \<le> actualEndIndex - len slice then actualEndIndex else start')"

text \<open>One iteration of the loop body.\<close>

definition chunkStep :: "DocumentProcessor \<Rightarrow> string \<Rightarrow> string \<Rightarrow> chunk_state \<Rightarrow> chunk_state" where
  "chunkStep dp text filename st =
     \<lparr>startIndex = nextStartIndex dp text (startIndex st),
      chunkIndex = chunkIndex st + 1,
      chunks = chunks st @ [make_chunk filename (chunkIndex st) (chunkTextSlice dp text (startIndex st))]\<rparr>"

text \<open>
  The loop \<^verbatim>\<open>while (startIndex < text.length)\<close>. It is a partial function: \<open>None\<close> is a
  loop that never ends. The result is the state at the exit.
\<close>

partial_function (option) chunkLoop ::
  "DocumentProcessor \<Rightarrow> string \<Rightarrow> string \<Rightarrow> chunk_state \<Rightarrow> chunk_state option" where
  "chunkLoop dp text filename st =
     (if startIndex st < len text
      then chunkLoop dp text filename (chunkStep dp text filename st)
      else Some st)"

definition chunk_init :: chunk_state where
  "chunk_init = \<lparr>startIndex = 0, chunkIndex = 0, chunks = []\<rparr>"

text \<open>
  \<^verbatim>\<open>chunkText(text, filename)\<close>: nothing for a text that is empty after trimming,
  otherwise the chunks of the loop, filtered by \<^verbatim>\<open>pageContent.length > 0\<close>.
\<close>

definition chunkText :: "DocumentProcessor \<Rightarrow> string \<Rightarrow> string \<Rightarrow> doc_chunk list option" where
  "chunkText dp text filename =
     (if js_trim text = [] then Some []
      else map_option (\<lambda>st. filter (\<lambda>c. 0 < length (pageContent c)) (chunks st))
             (chunkLoop dp text filename chunk_init))"

section \<open>Values, errors and the services the router calls\<close>

text \<open>A thrown \<^verbatim>\<open>Error\<close> with its message.\<close>

datatype js_error = Error string

text \<open>
  The values \<^verbatim>\<open>JSON.parse\<close> can return, and \<^verbatim>\<open>undefined\<close> for the read of a property
  that an object does not have. An object is the list of its own properties.
\<close>

datatype js_value =
    JUndefined
  | JNull
  | JBool bool
  | JNum real
  | JStr string
  | JArr "js_value list"
  | JObj "(string \<times> js_value) list"

definition get_prop :: "js_value \<Rightarrow> string \<Rightarrow> js_value" where
  "get_prop v k =
     (case v of
        JObj kvs \<Rightarrow> (case map_of kvs k of Some x \<Rightarrow> x | None \<Rightarrow> JUndefined)
      | _ \<Rightarrow> JUndefined)"

text \<open>\<^verbatim>\<open>parts.join(sep)\<close>.\<close>

fun js_join :: "string \<Rightarrow> string list \<Rightarrow> string" where
  "js_join sep [] = []"
| "js_join sep [x] = x"
| "js_join sep (x # y # ys) = x @ sep @ js_join sep (y # ys)"

text \<open>
  The response of the language model, as far as \<^verbatim>\<open>_processApiResponse\<close> reads it: the
  list \<^verbatim>\<open>response.candidates\<close>; of a candidate its \<^verbatim>\<open>finishReason\<close>, the text
  \<^verbatim>\<open>content.parts[0].text\<close> when that is a string, and its \<^verbatim>\<open>safetyRatings\<close>.
\<close>

record safety_rating =
  blocked :: bool
  category :: string

record candidate =
  finishReason :: "string option"
  partText :: "string option"
  safetyRatings :: "safety_rating list option"

type_synonym api_response = "candidate list"

record user =
  personalizationProfile :: string

record file_doc =
  path :: string
  originalname :: string

text \<open>
  A chunk as the vector store returns it; \<open>fileName\<close> is \<^verbatim>\<open>metadata.fileName\<close>. A score is
  a binary64 number, modelled by its real value: scores are only compared.
\<close>

record retrieved_chunk =
  content :: string
  score :: real
  fileName :: "string option"

record search_filters =
  filter_userId :: string
  filter_fileId :: "string option"

record search_options =
  limit :: nat
  filters :: search_filters

text \<open>
  The calls that leave the router, in the order they are made, and the entry into one of
  the two handlers.
\<close>

datatype handler = BroadHandler | SpecificHandler

datatype event =
    GenerateContent string
  | SearchDocuments string search_options
  | UserFindById string
  | FileFindOne string string
  | ParseFile string
  | Enter handler

text \<open>
  The collaborators of \<^verbatim>\<open>serviceManager.getServices()\<close> and the database models
  \<^verbatim>\<open>User\<close> and \<^verbatim>\<open>File\<close>. Each answers a call with a value or a thrown error, and its
  answer may depend on every call made before.
  \<open>isEnabled\<close> is \<^verbatim>\<open>!!this.model\<close>; \<open>handleGeminiError\<close> and \<open>JSON_parse\<close> are functions
  of their argument alone. \<open>parseFile\<close> is \<^verbatim>\<open>documentProcessor.parseFile\<close>, which reads the
  file system and calls the PDF and DOCX parsers; it catches their errors and returns the
  empty text then, and it throws only when the path is not a string. Here it may return any
  text or throw.
\<close>

record services =
  isEnabled :: bool
  generateContent :: "event list \<Rightarrow> string \<Rightarrow> js_error + api_response"
  handleGeminiError :: "js_error \<Rightarrow> js_error"
  JSON_parse :: "string \<Rightarrow> js_error + js_value"
  searchDocuments :: "event list \<Rightarrow> string \<Rightarrow> search_options \<Rightarrow> js_error + retrieved_chunk list"
  User_findById :: "event list \<Rightarrow> string \<Rightarrow> js_error + user option"
  File_findOne :: "event list \<Rightarrow> string \<Rightarrow> string \<Rightarrow> js_error + file_doc option"
  parseFile :: "event list \<Rightarrow> string \<Rightarrow> js_error + string"

text \<open>
  An \<^verbatim>\<open>async\<close> function is a computation on the trace of calls: it returns a value or
  throws, and extends the trace.
\<close>

type_synonym 'a io = "event list \<Rightarrow> (js_error + 'a) \<times> event list"

definition io_return :: "'a \<Rightarrow> 'a io" where
  "io_return x = (\<lambda>tr. (Inr x, tr))"

definition io_throw :: "js_error \<Rightarrow> 'a io" where
  "io_throw e = (\<lambda>tr. (Inl e, tr))"

definition io_bind :: "'a io \<Rightarrow> ('a \<Rightarrow> 'b io) \<Rightarrow> 'b io" where
  "io_bind m f = (\<lambda>tr. case m tr of (Inl e, tr') \<Rightarrow> (Inl e, tr') | (Inr x, tr') \<Rightarrow> f x tr')"

definition io_catch :: "'a io \<Rightarrow> (js_error \<Rightarrow> 'a io) \<Rightarrow> 'a io" where
  "io_catch m h = (\<lambda>tr. case m tr of (Inl e, tr') \<Rightarrow> h e tr' | (Inr x, tr') \<Rightarrow> (Inr x, tr'))"

definition io_call :: "event \<Rightarrow> (event list \<Rightarrow> js_error + 'a) \<Rightarrow> 'a io" where
  "io_call ev answer = (\<lambda>tr. (answer tr, tr @ [ev]))"

definition io_of :: "js_error + 'a \<Rightarrow> 'a io" where
  "io_of r = (\<lambda>tr. (r, tr))"

text \<open>A file id is used when it is truthy: neither \<^verbatim>\<open>null\<close> nor the empty string.\<close>

definition truthy :: "string option \<Rightarrow> bool" where
  "truthy x = (case x of None \<Rightarrow> False | Some s \<Rightarrow> s \<noteq> [])"

section \<open>The language model service: \<^verbatim>\<open>geminiAI.js\<close>\<close>

definition blockMessage :: "candidate option \<Rightarrow> string" where
  "blockMessage c =
     (let reason = (case c of
                      None \<Rightarrow> ''Unknown''
                    | Some c' \<Rightarrow> (case finishReason c' of
                                   None \<Rightarrow> ''Unknown''
                                 | Some r \<Rightarrow> if r = [] then ''Unknown'' else r));
          blockedCategories = (case c of
                      None \<Rightarrow> []
                    | Some c' \<Rightarrow> (case safetyRatings c' of
                                   None \<Rightarrow> []
                                 | Some rs \<Rightarrow> js_join '', '' (map category (filter blocked rs))))
      in ''AI response generation failed. Reason: '' @ reason @ ''.''
         @ (if blockedCategories \<noteq> [] then '' Blocked Categories: '' @ blockedCategories @ ''.'' else []))"

definition processApiResponse :: "api_response \<Rightarrow> js_error + string" where
  "processApiResponse response =
     (case response of
        [] \<Rightarrow> Inl (Error (blockMessage None))
      | c # _ \<Rightarrow>
          if finishReason c = Some ''STOP'' \<or> finishReason c = Some ''MAX_TOKENS''
          then (case partText c of
                  Some t \<Rightarrow> Inr t
                | None \<Rightarrow> Inl (Error (blockMessage (Some c))))
          else Inl (Error (blockMessage (Some c))))"

definition generateText :: "services \<Rightarrow> string \<Rightarrow> string io" where
  "generateText svc prompt =
     (if \<not> isEnabled svc then io_throw (Error ''AI service is not available.'')
      else io_catch
             (io_bind (io_call (GenerateContent prompt) (\<lambda>tr. generateContent svc tr prompt))
                (\<lambda>response. io_of (processApiResponse response)))
             (\<lambda>error. io_throw (Error ''Failed to generate text response'')))"

definition classify_prompt :: "string \<Rightarrow> string" where
  \<open>classify_prompt query =
     ''\<newline>Analyze the user's query and classify its intent. Choose one of two types:\<newline>''
     @ ''1.  "specific": The user is asking a direct question about a fact, concept, or detail that can likely be found in a specific part of a document. Examples: "What is the database schema?", "How does the authentication work?", "List the main components."\<newline>''
     @ ''2.  "broad": The user is asking for a general summary, explanation, or overview of the entire document. Examples: "explain this document", "summarize this", "what is this about?", "give me the key points".\<newline>''
     @ ''\<newline>User Query: "'' @ query @ ''"\<newline>''
     @ ''\<newline>Respond with ONLY a valid JSON object in the format: {"type": "specific" | "broad", "reason": "A brief explanation for your choice."}.\<newline>''\<close>

text \<open>
  \<^verbatim>\<open>text.match(/\{[\s\S]*\}/)\<close>: the match runs from the first opening brace to the last
  closing brace after it; there is none when no closing brace follows an opening one.
\<close>

definition match_json_object :: "string \<Rightarrow> string option" where
  "match_json_object text =
     (case dropWhile (\<lambda>c. c \<noteq> CHR ''{'') text of
        [] \<Rightarrow> None
      | b # rest \<Rightarrow>
          (let t = rev (dropWhile (\<lambda>c. c \<noteq> CHR ''}'') (rev rest))
           in if t = [] then None else Some (b # t)))"

definition default_analysis :: "string \<Rightarrow> js_value" where
  "default_analysis reason = JObj [(''type'', JStr ''specific''), (''reason'', JStr reason)]"

definition determineQueryType :: "services \<Rightarrow> string \<Rightarrow> js_value io" where
  "determineQueryType svc query =
     (if \<not> isEnabled svc then io_return (default_analysis ''AI disabled'')
      else io_catch
             (io_bind (io_call (GenerateContent (classify_prompt query))
                         (\<lambda>tr. generateContent svc tr (classify_prompt query)))
                (\<lambda>response. io_bind (io_of (processApiResponse response))
                   (\<lambda>text. case match_json_object text of
                              Some jsonMatch \<Rightarrow> io_of (JSON_parse svc jsonMatch)
                            | None \<Rightarrow> io_return (default_analysis
                                        ''Could not parse AI response for query type.''))))
             (\<lambda>error. io_return (default_analysis ''Error during analysis.'')))"

definition summary_prompt :: "string \<Rightarrow> string \<Rightarrow> string" where
  \<open>summary_prompt docContent query =
     ''\<newline>You are an expert summarizer. Based on the full document content provided below, generate a comprehensive answer to the user's original query.\<newline>''
     @ ''\<newline>Original Query: "'' @ query @ ''"\<newline>''
     @ ''\<newline>Document Content:\<newline>---\<newline>'' @ js_substring docContent 0 10000 @ ''\<newline>---\<newline>''
     @ ''\<newline>Provide a detailed and well-structured summary that directly addresses the user's request. Use markdown for formatting.\<newline>''\<close>

definition summarizeDocumentContent :: "services \<Rightarrow> string \<Rightarrow> string \<Rightarrow> string io" where
  "summarizeDocumentContent svc docContent query =
     (if \<not> isEnabled svc then io_return ''AI service is unavailable.''
      else io_catch
             (io_bind (io_call (GenerateContent (summary_prompt docContent query))
                         (\<lambda>tr. generateContent svc tr (summary_prompt docContent query)))
                (\<lambda>response. io_of (processApiResponse response)))
             (\<lambda>error. io_throw (handleGeminiError svc error)))"

definition buildRagPrompt :: "string \<Rightarrow> string \<Rightarrow> string \<Rightarrow> string" where
  \<open>buildRagPrompt query context profile =
     ''You are an expert assistant. Answer the user's question based ONLY on the following context. If the answer is not in the context, state that the information is not available in the provided text. Do not use outside knowledge.''
     @ (if profile \<noteq> []
        then ''\<newline>\<newline>Tailor your response to this user's profile: '' @ profile
        else [])
     @ ''\<newline>\<newline>Context: --- '' @ context @ '' --- \<newline>\<newline>Question: "'' @ query @ ''" \<newline>\<newline>Answer:''\<close>

section \<open>The router: \<^verbatim>\<open>HybridRagService.js\<close>\<close>

text \<open>
  The literal \<^verbatim>\<open>0.65\<close> denotes the binary64 number nearest to \<open>65/100\<close>, which is
  \<open>5854679515581645 / 2\<^sup>5\<^sup>3\<close>.
\<close>

definition RAG_CONFIDENCE_THRESHOLD :: real where
  "RAG_CONFIDENCE_THRESHOLD = 5854679515581645 / 2 ^ 53"

record source_ref =
  title :: string
  sourceType :: string

record result_metadata =
  searchType :: string
  sources :: "source_ref list"
  source_count :: "nat option"

record router_result =
  message :: string
  resultMetadata :: result_metadata

definition correct_prompt :: "string \<Rightarrow> string" where
  \<open>correct_prompt query =
     ''Correct any spelling mistakes in the following user query. Return ONLY the corrected query, nothing else. Do not answer the question. Original Query: "''
     @ query @ ''" Corrected Query:''\<close>

text \<open>
  \<^verbatim>\<open>correctAndClarifyQuery\<close>: the answer of the model, trimmed and without quotes and
  asterisks; the original query when the call throws.
\<close>

definition correctAndClarifyQuery :: "services \<Rightarrow> string \<Rightarrow> string io" where
  \<open>correctAndClarifyQuery svc query =
     io_catch
       (io_bind (generateText svc (correct_prompt query))
          (\<lambda>correctedQuery.
             io_return (filter (\<lambda>c. c \<noteq> CHR 0x22 \<and> c \<noteq> CHR ''*'') (js_trim correctedQuery))))
       (\<lambda>error. io_return query)\<close>

text \<open>
  \<^verbatim>\<open>formatSources\<close>: one entry for each file name, in the order of first occurrence; a
  missing or empty name counts as \<^verbatim>\<open>Unknown Document\<close>.
\<close>

definition source_name :: "retrieved_chunk \<Rightarrow> string" where
  "source_name c =
     (case fileName c of
        None \<Rightarrow> ''Unknown Document''
      | Some n \<Rightarrow> if n = [] then ''Unknown Document'' else n)"

definition formatSources :: "retrieved_chunk list \<Rightarrow> source_ref list" where
  "formatSources cs =
     map snd
       (foldl (\<lambda>uniqueSources c.
                 if source_name c \<in> fst ` set uniqueSources then uniqueSources
                 else uniqueSources @ [(source_name c, \<lparr>title = source_name c, sourceType = ''document''\<rparr>)])
          [] cs)"

text \<open>
  The confidence gate:
  \<^verbatim>\<open>relevantChunks.length > 0 && relevantChunks[0].score > RAG_CONFIDENCE_THRESHOLD\<close>.
\<close>

definition isContextSufficient :: "retrieved_chunk list \<Rightarrow> bool" where
  "isContextSufficient relevantChunks =
     (case relevantChunks of
        [] \<Rightarrow> False
      | topChunk # _ \<Rightarrow> RAG_CONFIDENCE_THRESHOLD < score topChunk)"

definition fallbackMessage :: "string option \<Rightarrow> string" where
  \<open>fallbackMessage fileId =
     (if truthy fileId
      then ''I couldn't find a confident answer for that in the selected document. Please try rephrasing your question with more specific keywords.''
      else ''I couldn't find a confident answer for that in your uploaded documents. Please try rephrasing your question or uploading more relevant files.'')\<close>

definition search_options_for :: "string \<Rightarrow> string option \<Rightarrow> search_options" where
  "search_options_for userId fileId =
     \<lparr>limit = 5,
      filters = \<lparr>filter_userId = userId,
                 filter_fileId = (if truthy fileId then fileId else None)\<rparr>\<rparr>"

definition handleSpecificQuery ::
  "services \<Rightarrow> string \<Rightarrow> string \<Rightarrow> string option \<Rightarrow> router_result io" where
  "handleSpecificQuery svc query userId fileId =
     io_bind (io_call (Enter SpecificHandler) (\<lambda>tr. Inr ())) (\<lambda>_.
     io_bind (correctAndClarifyQuery svc query) (\<lambda>correctedQuery.
     io_bind (io_call (SearchDocuments correctedQuery (search_options_for userId fileId))
                (\<lambda>tr. searchDocuments svc tr correctedQuery (search_options_for userId fileId)))
       (\<lambda>relevantChunks.
          if isContextSufficient relevantChunks
          then io_bind (io_call (UserFindById userId) (\<lambda>tr. User_findById svc tr userId))
                 (\<lambda>usr.
                    let context = js_join ''\<newline>\<newline>'' (map content relevantChunks);
                        profile = (case usr of Some u \<Rightarrow> personalizationProfile u | None \<Rightarrow> []);
                        prompt = buildRagPrompt correctedQuery context profile
                    in io_bind (generateText svc prompt)
                         (\<lambda>answer. io_return
                            \<lparr>message = answer,
                             resultMetadata = \<lparr>searchType = ''rag'',
                                               sources = formatSources relevantChunks,
                                               source_count = Some (length relevantChunks)\<rparr>\<rparr>))
          else io_return
                 \<lparr>message = fallbackMessage fileId,
                  resultMetadata = \<lparr>searchType = ''rag_fallback'', sources = [],
                                    source_count = None\<rparr>\<rparr>)))"

definition summary_error_result :: router_result where
  "summary_error_result =
     \<lparr>message = ''I encountered an error while trying to summarize the document. Please try again.'',
      resultMetadata = \<lparr>searchType = ''summary_error'', sources = [], source_count = None\<rparr>\<rparr>"

text \<open>The body of the \<^verbatim>\<open>try\<close> block of \<^verbatim>\<open>_handleBroadQuery\<close>.\<close>

definition summarize_file ::
  "services \<Rightarrow> string \<Rightarrow> string \<Rightarrow> string \<Rightarrow> router_result io" where
  \<open>summarize_file svc query userId fid =
     io_bind (io_call (FileFindOne fid userId) (\<lambda>tr. File_findOne svc tr fid userId))
       (\<lambda>found. case found of
            None \<Rightarrow> io_throw (Error ''File not found for summarization.'')
          | Some f \<Rightarrow>
              io_bind (io_call (ParseFile (path f)) (\<lambda>tr. parseFile svc tr (path f)))
                (\<lambda>fileContent.
                   if fileContent = [] \<or> length (js_trim fileContent) < 100
                   then io_return
                          \<lparr>message = ''The selected document doesn't have enough content to generate a summary.'',
                           resultMetadata =
                             \<lparr>searchType = ''summary_insufficient_content'',
                              sources = [\<lparr>title = originalname f, sourceType = ''document''\<rparr>],
                              source_count = None\<rparr>\<rparr>
                   else io_bind (summarizeDocumentContent svc fileContent query)
                          (\<lambda>summary. io_return
                             \<lparr>message = summary,
                              resultMetadata =
                                \<lparr>searchType = ''summary'',
                                 sources = [\<lparr>title = originalname f, sourceType = ''document''\<rparr>],
                                 source_count = None\<rparr>\<rparr>)))\<close>

definition summary_requires_file_result :: router_result where
  \<open>summary_requires_file_result =
     \<lparr>message = ''To get a summary, please first select a specific file to chat with from the 'My Files' menu.'',
      resultMetadata = \<lparr>searchType = ''summary_requires_file'', sources = [],
                        source_count = None\<rparr>\<rparr>\<close>

definition handleBroadQuery ::
  "services \<Rightarrow> string \<Rightarrow> string \<Rightarrow> string option \<Rightarrow> router_result io" where
  "handleBroadQuery svc query userId fileId =
     io_bind (io_call (Enter BroadHandler) (\<lambda>tr. Inr ())) (\<lambda>_.
       case fileId of
         None \<Rightarrow> io_return summary_requires_file_result
       | Some fid \<Rightarrow>
           if fid = [] then io_return summary_requires_file_result
           else io_catch (summarize_file svc query userId fid)
                  (\<lambda>error. io_return summary_error_result))"

text \<open>
  \<^verbatim>\<open>processQuery\<close>: classify the query, then call the broad handler when the type of the
  analysis is the string \<^verbatim>\<open>broad\<close>, and the specific handler otherwise.
\<close>

definition processQuery ::
  "services \<Rightarrow> string \<Rightarrow> string \<Rightarrow> string option \<Rightarrow> router_result io" where
  "processQuery svc query userId fileId =
     io_bind (determineQueryType svc query)
       (\<lambda>queryAnalysis.
          if get_prop queryAnalysis ''type'' = JStr ''broad''
          then handleBroadQuery svc query userId fileId
          else handleSpecificQuery svc query userId fileId)"

section \<open>The chunker as the specification words it\<close>

text \<open>
  The specification trims a window that ends before the text "back to the last whitespace
  boundary strictly before the window's end, unless no whitespace exists in the window".
  \<open>last_whitespace\<close> is the index of the last white space character of a window, or \<open>-1\<close>.
\<close>

definition last_whitespace :: "string \<Rightarrow> int" where
  "last_whitespace w =
     (case filter (\<lambda>i. is_js_whitespace (w ! i)) (rev [0..<length w]) of
        [] \<Rightarrow> -1
      | i # _ \<Rightarrow> int i)"

definition spec_chunkTextSlice :: "DocumentProcessor \<Rightarrow> string \<Rightarrow> int \<Rightarrow> string" where
  "spec_chunkTextSlice dp text start =
     (let window = chunkWindow dp text start
      in if endIndex dp text start < len text \<and> (\<exists>c \<in> set window. is_js_whitespace c)
         then take (nat (last_whitespace window)) window
         else window)"

text \<open>
  The specification starts the next window at the end of the current one minus the overlap,
  except after a word-boundary cut, where it resumes at the end of the consumed span.
\<close>

definition spec_nextStartIndex :: "DocumentProcessor \<Rightarrow> string \<Rightarrow> int \<Rightarrow> int" where
  "spec_nextStartIndex dp text start =
     (let slice = chunkTextSlice dp text start
      in if len slice < len (chunkWindow dp text start)
         then start + len slice
         else endIndex dp text start - chunkOverlap dp)"

section \<open>Observations on traces, and services for concrete runs\<close>

definition is_Enter :: "event \<Rightarrow> bool" where
  "is_Enter ev = (case ev of Enter h \<Rightarrow> True | _ \<Rightarrow> False)"

text \<open>The calls of the model that one request with the given prompt makes.\<close>

definition model_calls :: "services \<Rightarrow> string \<Rightarrow> event list" where
  "model_calls svc prompt = (if isEnabled svc then [GenerateContent prompt] else [])"

text \<open>
  Services for concrete runs. The model answers a correction request with
  \<^verbatim>\<open> "hello world" \<close>, a classification request with the given text and any other request with
  \<^verbatim>\<open>An answer.\<close>; the vector store returns the given chunks; the file exists but cannot be
  read, so that \<^verbatim>\<open>parseFile\<close> catches the error and returns the empty text.
\<close>

definition stub_candidate :: "string \<Rightarrow> candidate" where
  "stub_candidate t = \<lparr>finishReason = Some ''STOP'', partText = Some t, safetyRatings = None\<rparr>"

definition stub_services :: "string \<Rightarrow> retrieved_chunk list \<Rightarrow> services" where
  \<open>stub_services classification relevantChunks =
     \<lparr>isEnabled = True,
      generateContent = (\<lambda>tr prompt. Inr [stub_candidate
         (if prefix ''Correct'' prompt then '' "hello world" ''
          else if prefix ''\<newline>Analyze'' prompt then classification
          else ''An answer.'')]),
      handleGeminiError = (\<lambda>e. e),
      JSON_parse = (\<lambda>s.
         if s = ''{"type": "broad"}'' then Inr (JObj [(''type'', JStr ''broad'')])
         else if s = ''{"type": "specific"}'' then Inr (JObj [(''type'', JStr ''specific'')])
         else if s = ''{"type": "overview"}'' then Inr (JObj [(''type'', JStr ''overview'')])
         else Inl (Error ''SyntaxError'')),
      searchDocuments = (\<lambda>tr q opts. Inr relevantChunks),
      User_findById = (\<lambda>tr uid. Inr None),
      File_findOne = (\<lambda>tr fid uid. Inr (Some \<lparr>path = ''uploads/a.txt'', originalname = ''a.txt''\<rparr>)),
      parseFile = (\<lambda>tr p. Inr [])\<rparr>\<close>

definition gate_chunk :: "real \<Rightarrow> retrieved_chunk" where
  "gate_chunk x =
     \<lparr>content = ''Invoices are due in 30 days.'', score = x, fileName = Some ''terms.txt''\<rparr>"

text \<open>
  A text of 119 characters, and two more services for concrete runs of the broad path: one
  whose file lookup finds no file (\<^verbatim>\<open>File.findOne\<close> returns \<^verbatim>\<open>null\<close>), and one whose file
  parses to that text while every call of the model fails.
\<close>

definition sample_document :: string where
  "sample_document =
     ''The quarterly report covers revenue, costs and staffing for the northern region, with notes on the new warehouse lease.''"

definition missing_file_services :: services where
  "missing_file_services =
     (stub_services [] [])\<lparr>File_findOne := (\<lambda>tr fid uid. Inr None)\<rparr>"

definition failing_model_services :: services where
  "failing_model_services =
     (stub_services [] [])\<lparr>generateContent := (\<lambda>tr prompt. Inl (Error ''fetch failed'')),
                            parseFile := (\<lambda>tr p. Inr sample_document)\<rparr>"

section \<open>Properties of the string operations\<close>

lemma lastIndexOf_range: "-1 \<le> lastIndexOf s c \<and> lastIndexOf s c < len s"
  by (induction s) (auto simp: len_def Let_def)

lemma lastIndexOf_none: "lastIndexOf s c = -1 \<longleftrightarrow> c \<notin> set s"
proof (induction s)
  case Nil
  then show ?case by simp
next
  case (Cons x xs)
  have "-1 \<le> lastIndexOf xs c" using lastIndexOf_range by blast
  with Cons show ?case by (auto simp: Let_def)
qed

lemma lastIndexOf_split:
  "0 \<le> lastIndexOf s c \<Longrightarrow>
     \<exists>rest. s = take (nat (lastIndexOf s c)) s @ c # rest \<and> c \<notin> set rest"
proof (induction s)
  case Nil
  then show ?case by simp
next
  case (Cons x xs)
  show ?case
  proof (cases "0 \<le> lastIndexOf xs c")
    case True
    with Cons.IH obtain rest where
      r: "xs = take (nat (lastIndexOf xs c)) xs @ c # rest" "c \<notin> set rest" by blast
    from True have "nat (lastIndexOf xs c + 1) = Suc (nat (lastIndexOf xs c))" by simp
    with True r show ?thesis by (simp add: Let_def) metis
  next
    case False
    then have "lastIndexOf xs c = -1" using lastIndexOf_range[of xs c] by simp
    then have "c \<notin> set xs" by (simp add: lastIndexOf_none)
    with False Cons.prems show ?thesis by (auto simp: Let_def split: if_splits)
  qed
qed

lemma js_slice_in_range:
  "0 \<le> a \<Longrightarrow> a \<le> b \<Longrightarrow> b \<le> len s \<Longrightarrow> js_slice s a b = take (nat (b - a)) (drop (nat a) s)"
  by (auto simp: js_slice_def js_slice_index_def Let_def len_def)

lemma js_substring_prefix:
  "0 \<le> n \<Longrightarrow> n \<le> len s \<Longrightarrow> js_substring s 0 n = take (nat n) s"
  by (simp add: js_substring_def Let_def len_def min_def max_def)

lemma lastIndexOf_pos: "0 < lastIndexOf w c \<longleftrightarrow> c \<in> set (tl w)"
proof (cases w)
  case Nil
  then show ?thesis by simp
next
  case (Cons x xs)
  have "-1 \<le> lastIndexOf xs c" using lastIndexOf_range by blast
  moreover have "lastIndexOf xs c = -1 \<longleftrightarrow> c \<notin> set xs" by (rule lastIndexOf_none)
  ultimately show ?thesis using Cons by (auto simp: Let_def)
qed

section \<open>Properties of the chunker\<close>

lemma chunkWindow_eq:
  assumes "0 \<le> start" "start < len text" "0 < chunkSize dp"
  shows "chunkWindow dp text start = take (nat (endIndex dp text start - start)) (drop (nat start) text)"
    and "len (chunkWindow dp text start) = endIndex dp text start - start"
    and "start < endIndex dp text start" and "endIndex dp text start \<le> len text"
proof -
  show e: "start < endIndex dp text start" and e2: "endIndex dp text start \<le> len text"
    using assms by (auto simp: endIndex_def)
  show w: "chunkWindow dp text start = take (nat (endIndex dp text start - start)) (drop (nat start) text)"
    unfolding chunkWindow_def using assms e e2 by (simp add: js_slice_in_range)
  show "len (chunkWindow dp text start) = endIndex dp text start - start"
    unfolding w using assms e e2 by (auto simp: len_def)
qed

lemma chunkTextSlice_len:
  assumes "0 \<le> start" "start < len text" "0 < chunkSize dp"
  shows "0 < len (chunkTextSlice dp text start)"
    and "len (chunkTextSlice dp text start) \<le> endIndex dp text start - start"
proof -
  let ?w = "chunkWindow dp text start"
  have wl: "len ?w = endIndex dp text start - start" "start < endIndex dp text start"
    using chunkWindow_eq[OF assms] by auto
  have r: "lastIndexOf ?w CHR '' '' < len ?w" using lastIndexOf_range by blast
  have cut: "0 < lastIndexOf ?w CHR '' '' \<Longrightarrow>
       len (js_substring ?w 0 (lastIndexOf ?w CHR '' '')) = lastIndexOf ?w CHR '' ''"
    using r by (simp add: js_substring_prefix) (simp add: len_def)
  show "0 < len (chunkTextSlice dp text start)"
    using wl cut by (auto simp: chunkTextSlice_def Let_def)
  show "len (chunkTextSlice dp text start) \<le> endIndex dp text start - start"
    using wl cut r by (auto simp: chunkTextSlice_def Let_def)
qed

lemma nextStartIndex_progress:
  assumes "0 \<le> start" "start < len text" "0 < chunkSize dp"
  shows "start < nextStartIndex dp text start"
  using chunkTextSlice_len(1)[OF assms] by (auto simp: nextStartIndex_def Let_def)

lemma chunkLoop_terminates:
  assumes "0 < chunkSize dp" "0 \<le> startIndex st"
  shows "\<exists>st' n. chunkLoop dp text filename st = Some st'
           \<and> len text \<le> startIndex st'
           \<and> chunkIndex st' = chunkIndex st + n
           \<and> length (chunks st') = length (chunks st) + n
           \<and> int n \<le> max 0 (len text - startIndex st)"
  using assms(2)
proof (induction "nat (len text - startIndex st)" arbitrary: st rule: less_induct)
  case less
  show ?case
  proof (cases "startIndex st < len text")
    case False
    then show ?thesis by (subst chunkLoop.simps) simp
  next
    case True
    let ?st = "chunkStep dp text filename st"
    have p: "startIndex st < startIndex ?st"
      using nextStartIndex_progress[OF less.prems True assms(1)] by (simp add: chunkStep_def)
    then have "nat (len text - startIndex ?st) < nat (len text - startIndex st)" "0 \<le> startIndex ?st"
      using True less.prems by auto
    from less.hyps[OF this] obtain st' n where
      s: "chunkLoop dp text filename ?st = Some st'" "len text \<le> startIndex st'"
       "chunkIndex st' = chunkIndex ?st + n"
       "length (chunks st') = length (chunks ?st) + n"
       "int n \<le> max 0 (len text - startIndex ?st)"
      by blast
    have 1: "chunkLoop dp text filename st = Some st'"
      using True s(1) by (subst chunkLoop.simps) simp
    have 2: "chunkIndex st' = chunkIndex st + Suc n" "length (chunks st') = length (chunks st) + Suc n"
      using s(3,4) by (simp_all add: chunkStep_def)
    have 3: "int (Suc n) \<le> max 0 (len text - startIndex st)"
      using s(5) p True by auto
    from 1 2 3 s(2) show ?thesis by blast
  qed
qed

lemma make_chunk_nonempty: "pageContent (make_chunk filename i slice) \<noteq> []"
  by (simp add: make_chunk_def chunkWithContext_def)

lemma js_trim_Nil: "js_trim [] = []"
  by (simp add: js_trim_def)

lemma chunkText_short_text_count:
  assumes nonemp: "js_trim text \<noteq> []" and lt_size: "len text < chunkSize dp"
  shows "map_option length (chunkText dp text filename) =
           Some (if 0 < chunkOverlap dp \<and> chunkOverlap dp < len text then 2 else 1)"
proof -
  have pos: "0 < len text" using nonemp js_trim_Nil by (cases "text") (auto simp: len_def)
  have e0: "endIndex dp text 0 = len text" using lt_size by (simp add: endIndex_def)
  have w0: "chunkTextSlice dp text 0 = text"
    using pos e0 by (simp add: chunkTextSlice_def chunkWindow_def js_slice_in_range) (simp add: len_def)
  have n0: "nextStartIndex dp text 0 = (if len text - chunkOverlap dp \<le> 0 then len text else len text - chunkOverlap dp)"
    by (simp add: nextStartIndex_def w0 Let_def)
  let ?st1 = "chunkStep dp text filename chunk_init"
  have st1: "startIndex ?st1 = nextStartIndex dp text 0" "length (chunks ?st1) = 1"
    by (simp_all add: chunkStep_def chunk_init_def)
  have step1: "chunkLoop dp text filename chunk_init = chunkLoop dp text filename ?st1"
    using pos by (subst chunkLoop.simps) (simp add: chunk_init_def)
  have filt: "\<And>st. chunkLoop dp text filename chunk_init = Some st \<Longrightarrow>
     \<forall>c \<in> set (chunks st). 0 < length (pageContent c) \<Longrightarrow>
     map_option length (chunkText dp text filename) = Some (length (chunks st))"
    using nonemp by (simp add: chunkText_def filter_True)
  show ?thesis
  proof (cases "0 < chunkOverlap dp \<and> chunkOverlap dp < len text")
    case False
    then have "len text \<le> startIndex ?st1" using n0 st1 by auto
    then have "chunkLoop dp text filename ?st1 = Some ?st1" by (subst chunkLoop.simps) simp
    with step1 have "chunkLoop dp text filename chunk_init = Some ?st1" by simp
    moreover have "\<forall>c \<in> set (chunks ?st1). 0 < length (pageContent c)"
      by (simp add: chunkStep_def chunk_init_def make_chunk_nonempty)
    ultimately have "map_option length (chunkText dp text filename) = Some (length (chunks ?st1))"
      by (rule filt)
    with False show ?thesis by (auto simp: chunkStep_def chunk_init_def)
  next
    case True
    let ?s1 = "len text - chunkOverlap dp"
    have s1: "startIndex ?st1 = ?s1" "0 < ?s1" "?s1 < len text" using True n0 st1 by auto
    have e1: "endIndex dp text ?s1 = len text" using lt_size s1 by (simp add: endIndex_def)
    have w1: "len (chunkTextSlice dp text ?s1) = chunkOverlap dp"
      using s1 e1 True by (simp add: chunkTextSlice_def chunkWindow_def js_slice_in_range) (auto simp: len_def)
    have n1: "nextStartIndex dp text ?s1 = len text"
      by (simp add: nextStartIndex_def w1 Let_def)
    let ?st2 = "chunkStep dp text filename ?st1"
    have st2: "startIndex ?st2 = len text"
      using n1 s1(1) by (simp add: chunkStep_def)
    have "chunkLoop dp text filename ?st1 = chunkLoop dp text filename ?st2"
      using s1 by (subst chunkLoop.simps) simp
    moreover have "chunkLoop dp text filename ?st2 = Some ?st2"
      using st2 by (subst chunkLoop.simps) simp
    ultimately have "chunkLoop dp text filename chunk_init = Some ?st2" using step1 by simp
    moreover have "\<forall>c \<in> set (chunks ?st2). 0 < length (pageContent c)"
      by (simp add: chunkStep_def chunk_init_def make_chunk_nonempty)
    ultimately have "map_option length (chunkText dp text filename) = Some (length (chunks ?st2))"
      by (rule filt)
    with True show ?thesis by (auto simp: chunkStep_def chunk_init_def)
  qed
qed

lemmas chunk_eval = chunkText_def chunkLoop.simps chunk_init_def chunkStep_def nextStartIndex_def chunkTextSlice_def chunkWindow_def endIndex_def js_slice_def js_slice_index_def js_substring_def len_def js_trim_def is_js_whitespace_def make_chunk_def chunkWithContext_def

section \<open>Properties of the services and the handlers\<close>

lemmas io_defs = io_bind_def io_catch_def io_call_def io_return_def io_throw_def io_of_def

lemma generateText_trace:
  "snd (generateText svc prompt tr) = tr @ (if isEnabled svc then [GenerateContent prompt] else [])"
  by (auto simp: generateText_def io_defs split: sum.splits prod.splits)

lemma correctAndClarifyQuery_total:
  "\<exists>cq. correctAndClarifyQuery svc query tr =
           (Inr cq, tr @ (if isEnabled svc then [GenerateContent (correct_prompt query)] else []))"
  by (auto simp: correctAndClarifyQuery_def generateText_def io_defs split: sum.splits prod.splits)

lemma determineQueryType_total:
  "\<exists>qa. determineQueryType svc query tr =
           (Inr qa, tr @ (if isEnabled svc then [GenerateContent (classify_prompt query)] else []))"
  by (auto simp: determineQueryType_def io_defs split: sum.splits prod.splits option.splits)

lemma summarizeDocumentContent_trace:
  "snd (summarizeDocumentContent svc c query tr) =
     tr @ (if isEnabled svc then [GenerateContent (summary_prompt c query)] else [])"
  by (auto simp: summarizeDocumentContent_def io_defs split: sum.splits prod.splits)

lemma RAG_CONFIDENCE_THRESHOLD_nearest:
  "\<bar>RAG_CONFIDENCE_THRESHOLD - 65 / 100\<bar> < 1 / 2 ^ 54"
  by (simp add: RAG_CONFIDENCE_THRESHOLD_def)

lemma isContextSufficient_iff:
  "isContextSufficient cs \<longleftrightarrow> cs \<noteq> [] \<and> RAG_CONFIDENCE_THRESHOLD < score (hd cs)"
  by (cases cs) (simp_all add: isContextSufficient_def)

lemma handleSpecificQuery_fallback:
  assumes "correctAndClarifyQuery svc query (tr @ [Enter SpecificHandler]) = (Inr cq, tr1)"
      and "searchDocuments svc tr1 cq (search_options_for userId fileId) = Inr relevantChunks"
      and "\<not> isContextSufficient relevantChunks"
  shows "handleSpecificQuery svc query userId fileId tr =
           (Inr \<lparr>message = fallbackMessage fileId,
                 resultMetadata = \<lparr>searchType = ''rag_fallback'', sources = [],
                                   source_count = None\<rparr>\<rparr>,
            tr1 @ [SearchDocuments cq (search_options_for userId fileId)])"
  using assms by (simp add: handleSpecificQuery_def io_defs)

lemma handleSpecificQuery_rag:
  assumes "correctAndClarifyQuery svc query (tr @ [Enter SpecificHandler]) = (Inr cq, tr1)"
      and "searchDocuments svc tr1 cq (search_options_for userId fileId) = Inr relevantChunks"
      and "isContextSufficient relevantChunks"
  shows "\<exists>rest. snd (handleSpecificQuery svc query userId fileId tr) =
            tr1 @ [SearchDocuments cq (search_options_for userId fileId), UserFindById userId] @ rest
            \<and> (\<forall>ev \<in> set rest. \<exists>p. ev = GenerateContent p)"
    and "\<forall>r. fst (handleSpecificQuery svc query userId fileId tr) = Inr r
            \<longrightarrow> searchType (resultMetadata r) = ''rag''
              \<and> sources (resultMetadata r) = formatSources relevantChunks
              \<and> source_count (resultMetadata r) = Some (length relevantChunks)"
  using assms
  by (auto simp: handleSpecificQuery_def generateText_def io_defs Let_def split: sum.splits prod.splits)

lemma fallback_wording:
  "sublist ''selected document'' (fallbackMessage (Some (x # xs)))"
  "\<not> sublist ''uploaded documents'' (fallbackMessage (Some (x # xs)))"
  "\<not> sublist ''selected document'' (fallbackMessage None)"
  "sublist ''uploaded documents'' (fallbackMessage None)"
  "fallbackMessage (Some []) = fallbackMessage None"
  by (simp_all add: fallbackMessage_def truthy_def sublist_code prefix_code)

lemma summarize_file_trace:
  "\<exists>rest. snd (summarize_file svc query userId fid tr) = tr @ rest
      \<and> (\<forall>ev \<in> set rest. (\<exists>a b. ev = FileFindOne a b) \<or> (\<exists>p. ev = ParseFile p)
                             \<or> (\<exists>c. ev = GenerateContent (summary_prompt c query)))"
  by (auto simp: summarize_file_def summarizeDocumentContent_def io_defs
           split: sum.splits prod.splits option.splits)

lemma handleBroadQuery_trace:
  "\<exists>rest. snd (handleBroadQuery svc query userId fileId tr) = tr @ Enter BroadHandler # rest
      \<and> (\<forall>ev \<in> set rest. (\<exists>a b. ev = FileFindOne a b) \<or> (\<exists>p. ev = ParseFile p)
                             \<or> (\<exists>c. ev = GenerateContent (summary_prompt c query)))"
proof (cases "truthy fileId")
  case False
  then show ?thesis
    by (auto simp: handleBroadQuery_def truthy_def io_defs split: option.splits)
next
  case True
  then obtain fid where f: "fileId = Some fid" "fid \<noteq> []"
    by (auto simp: truthy_def split: option.splits)
  from summarize_file_trace[of svc query userId fid "tr @ [Enter BroadHandler]"]
  obtain rest where r: "snd (summarize_file svc query userId fid (tr @ [Enter BroadHandler])) = (tr @ [Enter BroadHandler]) @ rest"
     "\<forall>ev \<in> set rest. (\<exists>a b. ev = FileFindOne a b) \<or> (\<exists>p. ev = ParseFile p)
                             \<or> (\<exists>c. ev = GenerateContent (summary_prompt c query))" by blast
  have "snd (handleBroadQuery svc query userId fileId tr) = tr @ Enter BroadHandler # rest"
    using f r(1) by (auto simp: handleBroadQuery_def io_defs split: sum.splits prod.splits)
  with r(2) show ?thesis by blast
qed

lemma handleBroadQuery_total:
  "\<exists>r. fst (handleBroadQuery svc query userId fileId tr) = Inr r"
  by (auto simp: handleBroadQuery_def io_defs split: sum.splits prod.splits option.splits)

lemma handleSpecificQuery_trace:
  "\<exists>cq rest. correctAndClarifyQuery svc query (tr @ [Enter SpecificHandler]) =
                (Inr cq, tr @ [Enter SpecificHandler] @ model_calls svc (correct_prompt query))
      \<and> snd (handleSpecificQuery svc query userId fileId tr) =
           tr @ [Enter SpecificHandler] @ model_calls svc (correct_prompt query)
              @ SearchDocuments cq (search_options_for userId fileId) # rest
      \<and> (\<forall>ev \<in> set rest. \<not> is_Enter ev)"
proof -
  from correctAndClarifyQuery_total[of svc query "tr @ [Enter SpecificHandler]"]
  obtain cq where c: "correctAndClarifyQuery svc query (tr @ [Enter SpecificHandler]) =
                (Inr cq, tr @ [Enter SpecificHandler] @ model_calls svc (correct_prompt query))"
    by (auto simp: model_calls_def)
  have "\<exists>rest. snd (handleSpecificQuery svc query userId fileId tr) =
           tr @ [Enter SpecificHandler] @ model_calls svc (correct_prompt query)
              @ SearchDocuments cq (search_options_for userId fileId) # rest
      \<and> (\<forall>ev \<in> set rest. \<not> is_Enter ev)"
    using c
    by (auto simp: handleSpecificQuery_def generateText_def io_defs Let_def is_Enter_def
             split: sum.splits prod.splits)
  with c show ?thesis by blast
qed

lemma correct_prompt_not_summary_prompt: "correct_prompt q' \<noteq> summary_prompt c q"
  by (simp add: correct_prompt_def summary_prompt_def)

lemmas stub_eval = stub_services_def stub_candidate_def processApiResponse_def
  determineQueryType_def correctAndClarifyQuery_def generateText_def handleSpecificQuery_def
  handleBroadQuery_def summarize_file_def processQuery_def io_defs
  classify_prompt_def correct_prompt_def match_json_object_def js_trim_def is_js_whitespace_def
  get_prop_def search_options_for_def truthy_def isContextSufficient_def

section \<open>Claims on the chunker\<close>

text \<open>
  Claim C2. For every text, every integer chunk size above 0 and every overlap (so also
  every overlap \<open>\<ge> 0\<close>, and an overlap that is as large as the size or larger), each
  iteration of the loop of \<^verbatim>\<open>chunkText\<close> strictly increases the start index; the loop
  ends after at most \<open>length text\<close> iterations, and \<^verbatim>\<open>chunkText\<close> returns.
\<close>

theorem chunkText_forward_progress:
  assumes "0 < chunkSize dp"
  shows "(\<forall>st. 0 \<le> startIndex st \<and> startIndex st < len text
              \<longrightarrow> startIndex st < startIndex (chunkStep dp text filename st))
       \<and> (\<exists>st'. chunkLoop dp text filename chunk_init = Some st'
              \<and> chunkIndex st' \<le> length text \<and> length (chunks st') = chunkIndex st')
       \<and> (\<exists>cs. chunkText dp text filename = Some cs \<and> length cs \<le> length text)"
proof -
  have a: "\<forall>st. 0 \<le> startIndex st \<and> startIndex st < len text
              \<longrightarrow> startIndex st < startIndex (chunkStep dp text filename st)"
    using nextStartIndex_progress[OF _ _ assms] by (simp add: chunkStep_def)
  from chunkLoop_terminates[OF assms, of chunk_init "text" filename]
  obtain st' n where s: "chunkLoop dp text filename chunk_init = Some st'"
     "chunkIndex st' = n" "length (chunks st') = n" "int n \<le> max 0 (len text)"
    by (auto simp: chunk_init_def)
  then have n: "n \<le> length text" by (simp add: len_def)
  have b: "\<exists>st'. chunkLoop dp text filename chunk_init = Some st'
              \<and> chunkIndex st' \<le> length text \<and> length (chunks st') = chunkIndex st'"
    using s n by simp
  have "length (filter (\<lambda>c. 0 < length (pageContent c)) (chunks st')) \<le> length text"
    using s(3) n length_filter_le[of _ "chunks st'"] by (meson le_trans)
  then have c: "\<exists>cs. chunkText dp text filename = Some cs \<and> length cs \<le> length text"
    using s(1) by (simp add: chunkText_def)
  from a b c show ?thesis by blast
qed

theorem chunkText_forward_progress_witness:
  "0 < chunkSize \<lparr>chunkSize = 3, chunkOverlap = 5\<rparr>
   \<and> startIndex chunk_init
       < startIndex (chunkStep \<lparr>chunkSize = 3, chunkOverlap = 5\<rparr> ''ab cd ef'' ''f'' chunk_init)
   \<and> (\<exists>cs. chunkText \<lparr>chunkSize = 3, chunkOverlap = 5\<rparr> ''ab cd ef'' ''f'' = Some cs
          \<and> length cs \<le> length ''ab cd ef'')"
  using chunkText_forward_progress[of "\<lparr>chunkSize = 3, chunkOverlap = 5\<rparr>" "''ab cd ef''" "''f''"]
  by (simp add: chunk_eval)

text \<open>
  Claim C3 says that a text that is not empty after trimming and shorter than the chunk
  size gives exactly one chunk. With the sizes of the constructor (512 and 100) a text of
  119 characters gives two chunks: the first window already holds the whole text, but the
  loop steps back by the overlap, runs once more and emits the last 100 characters again.
  By \<open>chunkText_short_text_count\<close> this happens for every short text that is longer than a
  positive overlap.
\<close>

theorem chunkText_short_text_two_chunks:
  "map_option length (chunkText new_DocumentProcessor
     ''The quarterly report covers revenue, costs and staffing for the northern region, with notes on the new warehouse lease.''
     ''report.txt'') = Some 2"
  by (simp add: chunk_eval new_DocumentProcessor_def)

text \<open>
  Claim C4, as the specification states it, fails: after a word-boundary cut that leaves
  more than the overlap, the next start is the end of the cut slice minus the overlap (3),
  neither the end of the cut slice (5) nor the end of the window (8); and without any cut
  the next start is the end of the window (4), not that end minus the overlap (0), when the
  overlap is as long as the slice.
\<close>

theorem nextStartIndex_differs_from_spec:
  "nextStartIndex \<lparr>chunkSize = 8, chunkOverlap = 2\<rparr> ''hello world foo'' 0 = 3
   \<and> spec_nextStartIndex \<lparr>chunkSize = 8, chunkOverlap = 2\<rparr> ''hello world foo'' 0 = 5
   \<and> endIndex \<lparr>chunkSize = 8, chunkOverlap = 2\<rparr> ''hello world foo'' 0 = 8
   \<and> nextStartIndex \<lparr>chunkSize = 4, chunkOverlap = 4\<rparr> ''abcdefgh'' 0 = 4
   \<and> spec_nextStartIndex \<lparr>chunkSize = 4, chunkOverlap = 4\<rparr> ''abcdefgh'' 0 = 0"
  by (simp add: chunk_eval spec_nextStartIndex_def)

text \<open>
  Claim C4, amended. The next start is the end of the slice (the window after the
  word-boundary cut, before trimming) minus the overlap when the slice is longer than the
  overlap, and the end of the slice otherwise. For a start inside the text and a chunk size
  above 0 it lies strictly after the current start.
\<close>

theorem nextStartIndex_rule:
  "nextStartIndex dp text start =
     (if chunkOverlap dp < len (chunkTextSlice dp text start)
      then start + len (chunkTextSlice dp text start) - chunkOverlap dp
      else start + len (chunkTextSlice dp text start))
   \<and> (0 \<le> start \<and> start < len text \<and> 0 < chunkSize dp
        \<longrightarrow> start < nextStartIndex dp text start)"
  using nextStartIndex_progress[of start "text" dp] by (auto simp: nextStartIndex_def Let_def)

theorem nextStartIndex_rule_witness:
  "(0::int) \<le> 0 \<and> 0 < len ''hello world foo'' \<and> 0 < chunkSize \<lparr>chunkSize = 8, chunkOverlap = 2\<rparr>
   \<and> chunkOverlap \<lparr>chunkSize = 8, chunkOverlap = 2\<rparr>
        < len (chunkTextSlice \<lparr>chunkSize = 8, chunkOverlap = 2\<rparr> ''hello world foo'' 0)
   \<and> nextStartIndex \<lparr>chunkSize = 8, chunkOverlap = 2\<rparr> ''hello world foo'' 0 = 0 + 5 - 2
   \<and> 0 < nextStartIndex \<lparr>chunkSize = 8, chunkOverlap = 2\<rparr> ''hello world foo'' 0"
  using nextStartIndex_rule[of "\<lparr>chunkSize = 8, chunkOverlap = 2\<rparr>" "''hello world foo''" 0]
  by (simp add: chunkTextSlice_def chunkWindow_def endIndex_def js_slice_def js_slice_index_def
        js_substring_def len_def)

text \<open>
  Claim C5, as the specification states it, fails: a window whose only space is its first
  character keeps the hard cut although it contains white space, and a window whose only
  white space is a TAB keeps the hard cut too.
\<close>

theorem word_boundary_cut_differs_from_spec:
  "chunkWindow \<lparr>chunkSize = 4, chunkOverlap = 1\<rparr> '' abcdefg'' 0 = '' abc''
   \<and> chunkTextSlice \<lparr>chunkSize = 4, chunkOverlap = 1\<rparr> '' abcdefg'' 0 = '' abc''
   \<and> spec_chunkTextSlice \<lparr>chunkSize = 4, chunkOverlap = 1\<rparr> '' abcdefg'' 0 = []
   \<and> chunkTextSlice \<lparr>chunkSize = 4, chunkOverlap = 1\<rparr> (''ab'' @ [CHR 9] @ ''cdefg'') 0
        = ''ab'' @ [CHR 9] @ ''c''
   \<and> spec_chunkTextSlice \<lparr>chunkSize = 4, chunkOverlap = 1\<rparr> (''ab'' @ [CHR 9] @ ''cdefg'') 0
        = ''ab''"
  by (simp add: chunk_eval spec_chunkTextSlice_def last_whitespace_def upt_rec)

text \<open>
  Claim C5, amended. For every window that ends before the text does: when the window has a
  space character (U+0020) at an index above 0, the slice is the part of the window before
  its last space, and it is not empty; otherwise (no space, or a space only as the first
  character) the slice is the whole window, the hard cut.
\<close>

theorem word_boundary_cut_rule:
  assumes "endIndex dp text start < len text"
  shows "(if CHR '' '' \<in> set (tl (chunkWindow dp text start))
          then \<exists>rest. chunkWindow dp text start = chunkTextSlice dp text start @ CHR '' '' # rest
                 \<and> CHR '' '' \<notin> set rest \<and> chunkTextSlice dp text start \<noteq> []
          else chunkTextSlice dp text start = chunkWindow dp text start)"
proof (cases "CHR '' '' \<in> set (tl (chunkWindow dp text start))")
  case False
  then show ?thesis using assms by (simp add: chunkTextSlice_def Let_def lastIndexOf_pos)
next
  case True
  let ?w = "chunkWindow dp text start"
  let ?r = "lastIndexOf ?w CHR '' ''"
  have pos: "0 < ?r" using True by (simp add: lastIndexOf_pos)
  have lt: "?r < len ?w" using lastIndexOf_range by blast
  have s: "chunkTextSlice dp text start = take (nat ?r) ?w"
    using pos lt assms by (simp add: chunkTextSlice_def Let_def js_substring_prefix)
  from lastIndexOf_split[of "?w" "CHR '' ''"] pos obtain rest where
    "?w = take (nat ?r) ?w @ CHR '' '' # rest" "CHR '' '' \<notin> set rest" by auto
  moreover have "take (nat ?r) ?w \<noteq> []" using pos lt by (auto simp: len_def)
  ultimately show ?thesis using True s by auto
qed

theorem word_boundary_cut_rule_witness:
  "endIndex \<lparr>chunkSize = 8, chunkOverlap = 2\<rparr> ''hello world foo'' 0 < len ''hello world foo''
   \<and> CHR '' '' \<in> set (tl (chunkWindow \<lparr>chunkSize = 8, chunkOverlap = 2\<rparr> ''hello world foo'' 0))
   \<and> (\<exists>rest. chunkWindow \<lparr>chunkSize = 8, chunkOverlap = 2\<rparr> ''hello world foo'' 0 =
          chunkTextSlice \<lparr>chunkSize = 8, chunkOverlap = 2\<rparr> ''hello world foo'' 0 @ CHR '' '' # rest
        \<and> CHR '' '' \<notin> set rest)"
proof -
  let ?dp = "\<lparr>chunkSize = 8, chunkOverlap = 2\<rparr>"
  have h: "endIndex ?dp ''hello world foo'' 0 < len ''hello world foo''"
    by (simp add: endIndex_def len_def)
  have sp: "CHR '' '' \<in> set (tl (chunkWindow ?dp ''hello world foo'' 0))"
    by (simp add: chunkWindow_def endIndex_def js_slice_def js_slice_index_def len_def)
  from word_boundary_cut_rule[OF h] sp h show ?thesis by auto
qed

section \<open>Claims on the router\<close>

text \<open>
  Claim C1. On the specific path, once the retriever has returned its chunks, retrieval is
  judged sufficient if and only if there is at least one chunk and the score of the first
  chunk is strictly greater than the threshold 0.65. The threshold is the binary64 number
  that the literal 0.65 denotes, \<open>5854679515581645 / 2\<^sup>5\<^sup>3\<close>, which lies within \<open>2\<^sup>-\<^sup>5\<^sup>4\<close> of
  \<open>65/100\<close>: so every top score up to \<open>65/100\<close> is insufficient and every top score from
  \<open>65/100 + 2\<^sup>-\<^sup>5\<^sup>4\<close> on is sufficient. When retrieval is not sufficient the handler returns
  the fallback result (\<^verbatim>\<open>rag_fallback\<close>) right after the search; when it is, the handler
  goes on to the answer branch (it looks the user up next, and every result it returns has
  the search type \<^verbatim>\<open>rag\<close>). A top score equal to the threshold, the number 0.65 itself, is
  insufficient; the number 0.6501 (\<open>5855580235507119 / 2\<^sup>5\<^sup>3\<close> in binary64) is sufficient.
\<close>

theorem confidence_gate_decides_branch:
  assumes "correctAndClarifyQuery svc query (tr @ [Enter SpecificHandler]) = (Inr cq, tr1)"
      and "searchDocuments svc tr1 cq (search_options_for userId fileId) = Inr relevantChunks"
  shows "(isContextSufficient relevantChunks \<longleftrightarrow>
            relevantChunks \<noteq> [] \<and> RAG_CONFIDENCE_THRESHOLD < score (hd relevantChunks))
       \<and> RAG_CONFIDENCE_THRESHOLD = 5854679515581645 / 2 ^ 53
       \<and> 65 / 100 < RAG_CONFIDENCE_THRESHOLD
       \<and> RAG_CONFIDENCE_THRESHOLD < 65 / 100 + 1 / 2 ^ 54
       \<and> (isContextSufficient relevantChunks \<longleftrightarrow>
            relevantChunks \<noteq> [] \<and> 5854679515581645 / 2 ^ 53 < score (hd relevantChunks))
       \<and> (relevantChunks \<noteq> [] \<and> score (hd relevantChunks) \<le> 65 / 100
            \<longrightarrow> \<not> isContextSufficient relevantChunks)
       \<and> (relevantChunks \<noteq> [] \<and> 65 / 100 + 1 / 2 ^ 54 \<le> score (hd relevantChunks)
            \<longrightarrow> isContextSufficient relevantChunks)
       \<and> (\<not> isContextSufficient relevantChunks \<longrightarrow>
            (\<exists>r. handleSpecificQuery svc query userId fileId tr =
                    (Inr r, tr1 @ [SearchDocuments cq (search_options_for userId fileId)])
                 \<and> searchType (resultMetadata r) = ''rag_fallback''))
       \<and> (isContextSufficient relevantChunks \<longrightarrow>
            (\<exists>rest. snd (handleSpecificQuery svc query userId fileId tr) =
                    tr1 @ [SearchDocuments cq (search_options_for userId fileId),
                           UserFindById userId] @ rest)
            \<and> (\<forall>r. fst (handleSpecificQuery svc query userId fileId tr) = Inr r
                    \<longrightarrow> searchType (resultMetadata r) = ''rag''))
       \<and> (relevantChunks \<noteq> [] \<and> score (hd relevantChunks) = RAG_CONFIDENCE_THRESHOLD
            \<longrightarrow> \<not> isContextSufficient relevantChunks)
       \<and> (relevantChunks \<noteq> [] \<and> score (hd relevantChunks) = 5855580235507119 / 2 ^ 53
            \<longrightarrow> isContextSufficient relevantChunks)"
proof -
  have a: "isContextSufficient relevantChunks \<longleftrightarrow>
            relevantChunks \<noteq> [] \<and> RAG_CONFIDENCE_THRESHOLD < score (hd relevantChunks)"
    by (rule isContextSufficient_iff)
  have t: "RAG_CONFIDENCE_THRESHOLD = 5854679515581645 / 2 ^ 53"
    by (simp add: RAG_CONFIDENCE_THRESHOLD_def)
  have t1: "65 / 100 < RAG_CONFIDENCE_THRESHOLD"
    by (simp add: RAG_CONFIDENCE_THRESHOLD_def)
  have t2: "RAG_CONFIDENCE_THRESHOLD < 65 / 100 + 1 / 2 ^ 54"
    by (simp add: RAG_CONFIDENCE_THRESHOLD_def)
  have a': "isContextSufficient relevantChunks \<longleftrightarrow>
            relevantChunks \<noteq> [] \<and> 5854679515581645 / 2 ^ 53 < score (hd relevantChunks)"
    unfolding t[symmetric] by (rule a)
  have lo: "relevantChunks \<noteq> [] \<and> score (hd relevantChunks) \<le> 65 / 100
            \<longrightarrow> \<not> isContextSufficient relevantChunks"
    using a t1 by auto
  have hi: "relevantChunks \<noteq> [] \<and> 65 / 100 + 1 / 2 ^ 54 \<le> score (hd relevantChunks)
            \<longrightarrow> isContextSufficient relevantChunks"
    using a t2 by auto
  have b: "\<not> isContextSufficient relevantChunks \<longrightarrow>
            (\<exists>r. handleSpecificQuery svc query userId fileId tr =
                    (Inr r, tr1 @ [SearchDocuments cq (search_options_for userId fileId)])
                 \<and> searchType (resultMetadata r) = ''rag_fallback'')"
    using handleSpecificQuery_fallback[OF assms] by simp
  have c: "isContextSufficient relevantChunks \<longrightarrow>
            (\<exists>rest. snd (handleSpecificQuery svc query userId fileId tr) =
                    tr1 @ [SearchDocuments cq (search_options_for userId fileId),
                           UserFindById userId] @ rest)
            \<and> (\<forall>r. fst (handleSpecificQuery svc query userId fileId tr) = Inr r
                    \<longrightarrow> searchType (resultMetadata r) = ''rag'')"
    using handleSpecificQuery_rag[OF assms] by blast
  have d: "relevantChunks \<noteq> [] \<and> score (hd relevantChunks) = RAG_CONFIDENCE_THRESHOLD
            \<longrightarrow> \<not> isContextSufficient relevantChunks"
    by (simp add: a)
  have e: "relevantChunks \<noteq> [] \<and> score (hd relevantChunks) = 5855580235507119 / 2 ^ 53
            \<longrightarrow> isContextSufficient relevantChunks"
    by (simp add: a RAG_CONFIDENCE_THRESHOLD_def)
  show ?thesis
    apply (intro conjI)
    using a t t1 t2 a' lo hi b c d e by blast+
qed

theorem confidence_gate_decides_branch_witness:
  "correctAndClarifyQuery (stub_services [] [gate_chunk RAG_CONFIDENCE_THRESHOLD]) ''helo wrld''
      ([] @ [Enter SpecificHandler]) =
        (Inr ''hello world'', [Enter SpecificHandler, GenerateContent (correct_prompt ''helo wrld'')])
   \<and> searchType (resultMetadata (projr (fst (handleSpecificQuery
        (stub_services [] [gate_chunk RAG_CONFIDENCE_THRESHOLD]) ''helo wrld'' ''u1'' None [])))) = ''rag_fallback''
   \<and> searchType (resultMetadata (projr (fst (handleSpecificQuery
        (stub_services [] [gate_chunk (5855580235507119 / 2 ^ 53)]) ''helo wrld'' ''u1'' None [])))) = ''rag''
   \<and> searchType (resultMetadata (projr (fst (handleSpecificQuery
        (stub_services [] [gate_chunk (3 / 10)]) ''helo wrld'' ''u1'' None [])))) = ''rag_fallback''
   \<and> searchType (resultMetadata (projr (fst (handleSpecificQuery
        (stub_services [] [gate_chunk (9 / 10)]) ''helo wrld'' ''u1'' None [])))) = ''rag''
   \<and> RAG_CONFIDENCE_THRESHOLD = 5854679515581645 / 2 ^ 53"
proof -
  let ?S = "\<lambda>x. stub_services [] [gate_chunk x]"
  let ?tr1 = "[Enter SpecificHandler, GenerateContent (correct_prompt ''helo wrld'')]"
  have h1: "\<And>x. correctAndClarifyQuery (?S x) ''helo wrld'' ([] @ [Enter SpecificHandler]) =
        (Inr ''hello world'', ?tr1)"
    by (simp add: stub_eval)
  have h2: "\<And>x. searchDocuments (?S x) ?tr1 ''hello world'' (search_options_for ''u1'' None) = Inr [gate_chunk x]"
    by (simp add: stub_services_def)
  have s: "\<And>x. [gate_chunk x] \<noteq> [] \<and> score (hd [gate_chunk x]) = x"
    by (simp add: gate_chunk_def)
  have ok: "\<And>x. isContextSufficient [gate_chunk x] \<Longrightarrow>
      \<exists>r. fst (handleSpecificQuery (?S x) ''helo wrld'' ''u1'' None []) = Inr r"
    by (simp add: stub_eval gate_chunk_def Let_def buildRagPrompt_def)
  from confidence_gate_decides_branch[OF h1 h2, of RAG_CONFIDENCE_THRESHOLD] s[of RAG_CONFIDENCE_THRESHOLD]
  have 1: "searchType (resultMetadata (projr (fst (handleSpecificQuery
        (?S RAG_CONFIDENCE_THRESHOLD) ''helo wrld'' ''u1'' None [])))) = ''rag_fallback''"
    by auto
  from confidence_gate_decides_branch[OF h1 h2, of "5855580235507119 / 2 ^ 53"]
       s[of "5855580235507119 / 2 ^ 53"] ok[of "5855580235507119 / 2 ^ 53"]
  have 2: "searchType (resultMetadata (projr (fst (handleSpecificQuery
        (?S (5855580235507119 / 2 ^ 53)) ''helo wrld'' ''u1'' None [])))) = ''rag''"
    by auto
  have "score (hd [gate_chunk (3 / 10)]) \<le> 65 / 100" by (simp add: gate_chunk_def)
  with confidence_gate_decides_branch[OF h1 h2, of "3 / 10"]
  have 3: "searchType (resultMetadata (projr (fst (handleSpecificQuery
        (?S (3 / 10)) ''helo wrld'' ''u1'' None [])))) = ''rag_fallback''"
    by auto
  have "65 / 100 + 1 / 2 ^ 54 \<le> score (hd [gate_chunk (9 / 10)])" by (simp add: gate_chunk_def)
  with confidence_gate_decides_branch[OF h1 h2, of "9 / 10"] ok[of "9 / 10"]
  have 4: "searchType (resultMetadata (projr (fst (handleSpecificQuery
        (?S (9 / 10)) ''helo wrld'' ''u1'' None [])))) = ''rag''"
    by auto
  from confidence_gate_decides_branch[OF h1 h2, of RAG_CONFIDENCE_THRESHOLD]
  have 5: "RAG_CONFIDENCE_THRESHOLD = 5854679515581645 / 2 ^ 53" by blast
  from h1 1 2 3 4 5 show ?thesis by blast
qed

text \<open>
  Claim C6. On the specific path, when the confidence gate judges retrieval insufficient,
  the handler returns the search type \<^verbatim>\<open>rag_fallback\<close>, no sources and a fixed message, and
  it makes no call after the search: the trace ends with the search, and the only call of
  the model on the whole path is the one of the query correction, made before retrieval
  (none when the model is disabled). With a file id the message speaks of the selected
  document, without one of the uploaded documents.
\<close>

theorem insufficient_context_fallback:
  assumes "correctAndClarifyQuery svc query (tr @ [Enter SpecificHandler]) = (Inr cq, tr1)"
      and "searchDocuments svc tr1 cq (search_options_for userId fileId) = Inr relevantChunks"
      and "\<not> isContextSufficient relevantChunks"
  shows "handleSpecificQuery svc query userId fileId tr =
           (Inr \<lparr>message = fallbackMessage fileId,
                 resultMetadata = \<lparr>searchType = ''rag_fallback'', sources = [],
                                   source_count = None\<rparr>\<rparr>,
            tr1 @ [SearchDocuments cq (search_options_for userId fileId)])
       \<and> tr1 = tr @ [Enter SpecificHandler] @ model_calls svc (correct_prompt query)
       \<and> (truthy fileId \<longrightarrow>
             sublist ''selected document'' (fallbackMessage fileId)
             \<and> \<not> sublist ''uploaded documents'' (fallbackMessage fileId))
       \<and> (\<not> truthy fileId \<longrightarrow>
             sublist ''uploaded documents'' (fallbackMessage fileId)
             \<and> \<not> sublist ''selected document'' (fallbackMessage fileId))"
proof -
  have a: "handleSpecificQuery svc query userId fileId tr =
           (Inr \<lparr>message = fallbackMessage fileId,
                 resultMetadata = \<lparr>searchType = ''rag_fallback'', sources = [],
                                   source_count = None\<rparr>\<rparr>,
            tr1 @ [SearchDocuments cq (search_options_for userId fileId)])"
    by (rule handleSpecificQuery_fallback[OF assms])
  have b: "tr1 = tr @ [Enter SpecificHandler] @ model_calls svc (correct_prompt query)"
    using assms(1) correctAndClarifyQuery_total[of svc query "tr @ [Enter SpecificHandler]"]
    by (auto simp: model_calls_def)
  have c: "truthy fileId \<longrightarrow>
             sublist ''selected document'' (fallbackMessage fileId)
             \<and> \<not> sublist ''uploaded documents'' (fallbackMessage fileId)"
    using fallback_wording(1,2) by (cases fileId; cases "the fileId") (auto simp: truthy_def)
  have d: "\<not> truthy fileId \<longrightarrow>
             sublist ''uploaded documents'' (fallbackMessage fileId)
             \<and> \<not> sublist ''selected document'' (fallbackMessage fileId)"
    using fallback_wording(3,4,5) by (cases fileId) (auto simp: truthy_def)
  from a b c d show ?thesis by blast
qed

theorem insufficient_context_fallback_witness:
  "correctAndClarifyQuery (stub_services [] []) ''helo wrld'' ([] @ [Enter SpecificHandler]) =
     (Inr ''hello world'', [Enter SpecificHandler, GenerateContent (correct_prompt ''helo wrld'')])
   \<and> \<not> isContextSufficient []
   \<and> \<not> truthy None
   \<and> handleSpecificQuery (stub_services [] []) ''helo wrld'' ''u1'' None [] =
       (Inr \<lparr>message = fallbackMessage None,
             resultMetadata = \<lparr>searchType = ''rag_fallback'', sources = [], source_count = None\<rparr>\<rparr>,
        [Enter SpecificHandler, GenerateContent (correct_prompt ''helo wrld''),
         SearchDocuments ''hello world'' (search_options_for ''u1'' None)])
   \<and> sublist ''uploaded documents'' (fallbackMessage None)"
proof -
  let ?S = "stub_services [] []"
  let ?tr1 = "[Enter SpecificHandler, GenerateContent (correct_prompt ''helo wrld'')]"
  have h1: "correctAndClarifyQuery ?S ''helo wrld'' ([] @ [Enter SpecificHandler]) =
        (Inr ''hello world'', ?tr1)"
    by (simp add: stub_eval)
  have h2: "searchDocuments ?S ?tr1 ''hello world'' (search_options_for ''u1'' None) = Inr []"
    by (simp add: stub_services_def)
  have h3: "\<not> isContextSufficient []" by (simp add: isContextSufficient_def)
  have h4: "\<not> truthy None" by (simp add: truthy_def)
  from insufficient_context_fallback[OF h1 h2 h3] h1 h3 h4 show ?thesis by simp
qed

text \<open>
  Claim C7. On the broad path with a file id, the handler never throws: whatever the
  \<^verbatim>\<open>try\<close> block throws becomes the result \<^verbatim>\<open>summary_error\<close>, whose message is the fixed
  apology \<^verbatim>\<open>I encountered an error while trying to summarize the document. Please try again.\<close>
  and whose sources are empty; nothing of the error that was thrown is in it. This holds when
  the file lookup throws or finds no file, when parsing throws, and when summarizing throws.
\<close>

theorem broad_query_errors_become_summary_error:
  assumes "fileId = Some fid" and "fid \<noteq> []"
  shows "(\<exists>r. fst (handleBroadQuery svc query userId fileId tr) = Inr r)
       \<and> fst (handleBroadQuery svc query userId fileId tr) =
           (case fst (summarize_file svc query userId fid (tr @ [Enter BroadHandler])) of
              Inl e \<Rightarrow> Inr summary_error_result
            | Inr r \<Rightarrow> Inr r)
       \<and> (\<forall>e. File_findOne svc (tr @ [Enter BroadHandler]) fid userId = Inl e
              \<longrightarrow> fst (handleBroadQuery svc query userId fileId tr) = Inr summary_error_result)
       \<and> (File_findOne svc (tr @ [Enter BroadHandler]) fid userId = Inr None
              \<longrightarrow> fst (handleBroadQuery svc query userId fileId tr) = Inr summary_error_result)
       \<and> (\<forall>f e. File_findOne svc (tr @ [Enter BroadHandler]) fid userId = Inr (Some f)
                \<and> parseFile svc (tr @ [Enter BroadHandler, FileFindOne fid userId]) (path f) = Inl e
              \<longrightarrow> fst (handleBroadQuery svc query userId fileId tr) = Inr summary_error_result)
       \<and> (\<forall>f c e. File_findOne svc (tr @ [Enter BroadHandler]) fid userId = Inr (Some f)
                \<and> parseFile svc (tr @ [Enter BroadHandler, FileFindOne fid userId]) (path f) = Inr c
                \<and> c \<noteq> [] \<and> 100 \<le> length (js_trim c)
                \<and> fst (summarizeDocumentContent svc c query
                        (tr @ [Enter BroadHandler, FileFindOne fid userId, ParseFile (path f)])) = Inl e
              \<longrightarrow> fst (handleBroadQuery svc query userId fileId tr) = Inr summary_error_result)
       \<and> message summary_error_result =
           ''I encountered an error while trying to summarize the document. Please try again.''
       \<and> searchType (resultMetadata summary_error_result) = ''summary_error''
       \<and> sources (resultMetadata summary_error_result) = []"
  using assms
  by (auto simp: handleBroadQuery_def summarize_file_def io_defs summary_error_result_def
           split: sum.splits prod.splits option.splits)

theorem broad_query_errors_become_summary_error_witness:
  "Some ''f1'' = Some ''f1'' \<and> ''f1'' \<noteq> []
   \<and> File_findOne missing_file_services ([] @ [Enter BroadHandler]) ''f1'' ''u1'' = Inr None
   \<and> fst (handleBroadQuery missing_file_services ''summarise this'' ''u1'' (Some ''f1'') [])
       = Inr summary_error_result
   \<and> parseFile failing_model_services ([] @ [Enter BroadHandler, FileFindOne ''f1'' ''u1''])
        (path \<lparr>path = ''uploads/a.txt'', originalname = ''a.txt''\<rparr>) = Inr sample_document
   \<and> 100 \<le> length (js_trim sample_document)
   \<and> fst (summarizeDocumentContent failing_model_services sample_document ''summarise this''
        ([] @ [Enter BroadHandler, FileFindOne ''f1'' ''u1'',
               ParseFile (path \<lparr>path = ''uploads/a.txt'', originalname = ''a.txt''\<rparr>)]))
       = Inl (Error ''fetch failed'')
   \<and> fst (handleBroadQuery failing_model_services ''summarise this'' ''u1'' (Some ''f1'') [])
       = Inr summary_error_result
   \<and> message summary_error_result =
       ''I encountered an error while trying to summarize the document. Please try again.''"
proof -
  let ?f = "\<lparr>path = ''uploads/a.txt'', originalname = ''a.txt''\<rparr>"
  have h: "Some ''f1'' = Some ''f1''" "''f1'' \<noteq> []" by simp_all
  have m: "File_findOne missing_file_services ([] @ [Enter BroadHandler]) ''f1'' ''u1'' = Inr None"
    by (simp add: missing_file_services_def stub_services_def)
  from broad_query_errors_become_summary_error[OF h, of missing_file_services "''summarise this''" "''u1''" "[]"] m
  have 1: "fst (handleBroadQuery missing_file_services ''summarise this'' ''u1'' (Some ''f1'') [])
       = Inr summary_error_result"
    by blast
  have f: "File_findOne failing_model_services ([] @ [Enter BroadHandler]) ''f1'' ''u1'' = Inr (Some ?f)"
    by (simp add: failing_model_services_def stub_services_def)
  have p: "parseFile failing_model_services ([] @ [Enter BroadHandler, FileFindOne ''f1'' ''u1''])
        (path ?f) = Inr sample_document"
    by (simp add: failing_model_services_def stub_services_def)
  have n: "sample_document \<noteq> []" "100 \<le> length (js_trim sample_document)"
    by (simp_all add: sample_document_def js_trim_def is_js_whitespace_def)
  have s: "fst (summarizeDocumentContent failing_model_services sample_document ''summarise this''
        ([] @ [Enter BroadHandler, FileFindOne ''f1'' ''u1'', ParseFile (path ?f)]))
       = Inl (Error ''fetch failed'')"
    by (simp add: summarizeDocumentContent_def failing_model_services_def stub_services_def io_defs)
  from broad_query_errors_become_summary_error[OF h, of failing_model_services "''summarise this''" "''u1''" "[]"]
       f p n s
  have 2: "fst (handleBroadQuery failing_model_services ''summarise this'' ''u1'' (Some ''f1'') [])
       = Inr summary_error_result"
    by blast
  from broad_query_errors_become_summary_error[OF h, of missing_file_services "''summarise this''" "''u1''" "[]"]
  have 3: "message summary_error_result =
       ''I encountered an error while trying to summarize the document. Please try again.''"
    by blast
  from h m 1 p n(2) s 2 3 show ?thesis by blast
qed

text \<open>
  Claim C8, as the specification states it, fails. For the query \<^verbatim>\<open>helo wrld\<close>, which the
  corrector turns into \<^verbatim>\<open>hello world\<close>, the first call of a routed query is the
  classification, with the uncorrected query in its prompt; the correction is requested
  only afterwards, inside the specific handler. On the broad path no correction is
  requested at all.
\<close>

theorem corrector_does_not_precede_classifier:
  \<open>snd (processQuery (stub_services ''{"type": "specific"}'' []) ''helo wrld'' ''u1'' None []) =
     [GenerateContent (classify_prompt ''helo wrld''), Enter SpecificHandler,
      GenerateContent (correct_prompt ''helo wrld''),
      SearchDocuments ''hello world'' (search_options_for ''u1'' None)]
   \<and> snd (processQuery (stub_services ''{"type": "broad"}'' []) ''helo wrld'' ''u1'' (Some ''f1'') []) =
     [GenerateContent (classify_prompt ''helo wrld''), Enter BroadHandler,
      FileFindOne ''f1'' ''u1'', ParseFile ''uploads/a.txt'']
   \<and> fst (correctAndClarifyQuery (stub_services ''{"type": "broad"}'' []) ''helo wrld'' []) =
       Inr ''hello world''
   \<and> classify_prompt ''helo wrld'' \<noteq> classify_prompt ''hello world''\<close>
  by (simp add: stub_eval)

text \<open>
  Claim C8, amended. For every routed query the classifier runs first, on the query as
  the user wrote it. On the broad path the query is never corrected: the handler only looks
  the file up, parses it and asks for a summary with the uncorrected query. On the specific
  path the corrector runs after the classification, inside the handler, and the retriever
  is searched with the corrected query.
\<close>

theorem classifier_runs_before_corrector:
  "\<exists>qa. determineQueryType svc query tr = (Inr qa, tr @ model_calls svc (classify_prompt query))
     \<and> (get_prop qa ''type'' = JStr ''broad'' \<longrightarrow>
          (\<exists>rest. snd (processQuery svc query userId fileId tr) =
                     tr @ model_calls svc (classify_prompt query) @ Enter BroadHandler # rest
                 \<and> (\<forall>ev \<in> set rest. (\<exists>a b. ev = FileFindOne a b) \<or> (\<exists>p. ev = ParseFile p)
                                        \<or> (\<exists>c. ev = GenerateContent (summary_prompt c query)))
                 \<and> (\<forall>q'. GenerateContent (correct_prompt q') \<notin> set rest)))
     \<and> (get_prop qa ''type'' \<noteq> JStr ''broad'' \<longrightarrow>
          (\<exists>cq rest.
              correctAndClarifyQuery svc query
                (tr @ model_calls svc (classify_prompt query) @ [Enter SpecificHandler]) =
                (Inr cq, tr @ model_calls svc (classify_prompt query) @ [Enter SpecificHandler]
                           @ model_calls svc (correct_prompt query))
            \<and> snd (processQuery svc query userId fileId tr) =
                tr @ model_calls svc (classify_prompt query) @ [Enter SpecificHandler]
                   @ model_calls svc (correct_prompt query)
                   @ SearchDocuments cq (search_options_for userId fileId) # rest))"
proof -
  from determineQueryType_total[of svc query tr] obtain qa where
    d: "determineQueryType svc query tr = (Inr qa, tr @ model_calls svc (classify_prompt query))"
    by (auto simp: model_calls_def)
  let ?tr1 = "tr @ model_calls svc (classify_prompt query)"
  have p: "processQuery svc query userId fileId tr =
         (if get_prop qa ''type'' = JStr ''broad''
          then handleBroadQuery svc query userId fileId ?tr1
          else handleSpecificQuery svc query userId fileId ?tr1)"
    using d by (simp add: processQuery_def io_bind_def)
  have b: "get_prop qa ''type'' = JStr ''broad'' \<longrightarrow>
          (\<exists>rest. snd (processQuery svc query userId fileId tr) = ?tr1 @ Enter BroadHandler # rest
                 \<and> (\<forall>ev \<in> set rest. (\<exists>a b. ev = FileFindOne a b) \<or> (\<exists>p. ev = ParseFile p)
                                        \<or> (\<exists>c. ev = GenerateContent (summary_prompt c query)))
                 \<and> (\<forall>q'. GenerateContent (correct_prompt q') \<notin> set rest))"
  proof
    assume t: "get_prop qa ''type'' = JStr ''broad''"
    from handleBroadQuery_trace[of svc query userId fileId ?tr1] obtain rest where
      r: "snd (handleBroadQuery svc query userId fileId ?tr1) = ?tr1 @ Enter BroadHandler # rest"
         "\<forall>ev \<in> set rest. (\<exists>a b. ev = FileFindOne a b) \<or> (\<exists>p. ev = ParseFile p)
                             \<or> (\<exists>c. ev = GenerateContent (summary_prompt c query))" by blast
    have "\<forall>q'. GenerateContent (correct_prompt q') \<notin> set rest"
      using r(2) correct_prompt_not_summary_prompt by fastforce
    with r t p show "\<exists>rest. snd (processQuery svc query userId fileId tr) = ?tr1 @ Enter BroadHandler # rest
                 \<and> (\<forall>ev \<in> set rest. (\<exists>a b. ev = FileFindOne a b) \<or> (\<exists>p. ev = ParseFile p)
                                        \<or> (\<exists>c. ev = GenerateContent (summary_prompt c query)))
                 \<and> (\<forall>q'. GenerateContent (correct_prompt q') \<notin> set rest)"
      by auto
  qed
  have s: "get_prop qa ''type'' \<noteq> JStr ''broad'' \<longrightarrow>
          (\<exists>cq rest.
              correctAndClarifyQuery svc query (?tr1 @ [Enter SpecificHandler]) =
                (Inr cq, ?tr1 @ [Enter SpecificHandler] @ model_calls svc (correct_prompt query))
            \<and> snd (processQuery svc query userId fileId tr) =
                ?tr1 @ [Enter SpecificHandler] @ model_calls svc (correct_prompt query)
                   @ SearchDocuments cq (search_options_for userId fileId) # rest)"
    using handleSpecificQuery_trace[of svc query ?tr1 userId fileId] p by auto
  from d b s show ?thesis by auto
qed

theorem classifier_runs_before_corrector_witness:
  \<open>determineQueryType (stub_services ''{"type": "broad"}'' []) ''helo wrld'' [] =
     (Inr (JObj [(''type'', JStr ''broad'')]), [GenerateContent (classify_prompt ''helo wrld'')])
   \<and> get_prop (JObj [(''type'', JStr ''broad'')]) ''type'' = JStr ''broad''
   \<and> (\<exists>rest. snd (processQuery (stub_services ''{"type": "broad"}'' []) ''helo wrld'' ''u1'' (Some ''f1'') []) =
          [] @ model_calls (stub_services ''{"type": "broad"}'' []) (classify_prompt ''helo wrld'')
             @ Enter BroadHandler # rest
        \<and> GenerateContent (correct_prompt ''helo wrld'') \<notin> set rest)\<close>
proof -
  let ?S = \<open>stub_services ''{"type": "broad"}'' []\<close>
  have d: "determineQueryType ?S ''helo wrld'' [] =
     (Inr (JObj [(''type'', JStr ''broad'')]), [GenerateContent (classify_prompt ''helo wrld'')])"
    by (simp add: stub_eval)
  have g: "get_prop (JObj [(''type'', JStr ''broad'')]) ''type'' = JStr ''broad''"
    by (simp add: get_prop_def)
  from classifier_runs_before_corrector[of ?S "''helo wrld''" "[]" "''u1''" "Some ''f1''"] d g
  have "\<exists>rest. snd (processQuery ?S ''helo wrld'' ''u1'' (Some ''f1'') []) =
          [] @ model_calls ?S (classify_prompt ''helo wrld'') @ Enter BroadHandler # rest
        \<and> GenerateContent (correct_prompt ''helo wrld'') \<notin> set rest"
    by auto
  with d g show ?thesis by blast
qed

text \<open>
  Claim C9. The classifier never throws. When the model is disabled, when the
  classification call throws (the call itself or the reading of its response), when the
  response text holds no JSON object, or when the object found does not parse, the
  classifier returns an analysis of type \<^verbatim>\<open>specific\<close> with a diagnostic reason.
\<close>

theorem determineQueryType_defaults_to_specific:
  "(\<exists>qa. fst (determineQueryType svc query tr) = Inr qa)
   \<and> (\<not> isEnabled svc \<longrightarrow>
        fst (determineQueryType svc query tr) = Inr (default_analysis ''AI disabled''))
   \<and> (isEnabled svc \<longrightarrow>
        (\<forall>e. generateContent svc tr (classify_prompt query) = Inl e
           \<longrightarrow> fst (determineQueryType svc query tr) = Inr (default_analysis ''Error during analysis.''))
      \<and> (\<forall>response e. generateContent svc tr (classify_prompt query) = Inr response
              \<and> processApiResponse response = Inl e
           \<longrightarrow> fst (determineQueryType svc query tr) = Inr (default_analysis ''Error during analysis.''))
      \<and> (\<forall>response text. generateContent svc tr (classify_prompt query) = Inr response
              \<and> processApiResponse response = Inr text \<and> match_json_object text = None
           \<longrightarrow> fst (determineQueryType svc query tr) =
                 Inr (default_analysis ''Could not parse AI response for query type.''))
      \<and> (\<forall>response text jsonMatch e. generateContent svc tr (classify_prompt query) = Inr response
              \<and> processApiResponse response = Inr text \<and> match_json_object text = Some jsonMatch
              \<and> JSON_parse svc jsonMatch = Inl e
           \<longrightarrow> fst (determineQueryType svc query tr) = Inr (default_analysis ''Error during analysis.'')))
   \<and> (\<forall>reason. get_prop (default_analysis reason) ''type'' = JStr ''specific''
          \<and> get_prop (default_analysis reason) ''reason'' = JStr reason)"
  by (auto simp: determineQueryType_def io_defs default_analysis_def get_prop_def
           split: sum.splits prod.splits option.splits)

theorem determineQueryType_defaults_to_specific_witness:
  "isEnabled (stub_services ''I think it is broad.'' [])
   \<and> generateContent (stub_services ''I think it is broad.'' []) [] (classify_prompt ''summarise this'')
        = Inr [stub_candidate ''I think it is broad.'']
   \<and> processApiResponse [stub_candidate ''I think it is broad.''] = Inr ''I think it is broad.''
   \<and> match_json_object ''I think it is broad.'' = None
   \<and> fst (determineQueryType (stub_services ''I think it is broad.'' []) ''summarise this'' [])
        = Inr (default_analysis ''Could not parse AI response for query type.'')
   \<and> get_prop (default_analysis ''Could not parse AI response for query type.'') ''type''
        = JStr ''specific''"
proof -
  let ?S = "stub_services ''I think it is broad.'' []"
  have e: "isEnabled ?S" by (simp add: stub_services_def)
  have g: "generateContent ?S [] (classify_prompt ''summarise this'')
        = Inr [stub_candidate ''I think it is broad.'']"
    by (simp add: stub_services_def classify_prompt_def)
  have p: "processApiResponse [stub_candidate ''I think it is broad.''] = Inr ''I think it is broad.''"
    by (simp add: processApiResponse_def stub_candidate_def)
  have m: "match_json_object ''I think it is broad.'' = None"
    by (simp add: match_json_object_def)
  from determineQueryType_defaults_to_specific[of ?S "''summarise this''" "[]"] e g p m show ?thesis by blast
qed



end
